theory Spec2Isabelle
  imports Complex_Main
begin

section \<open>Data model (data_models.py)\<close>

text \<open>
  Python's \<open>Decimal\<close> is modelled by \<^typ>\<open>rat\<close>: every finite decimal is a rational, and
  the arithmetic is taken exact (the 28-digit context precision and the NaN and Infinity
  values of \<open>Decimal\<close> are outside the model). Values of untyped dictionaries coming
  from the exchange are values of \<open>pyval\<close>; a dictionary is an association list read with
  \<^const>\<open>map_of\<close> (the first binding of a key wins, keys are unique in a Python dict).
\<close>

datatype TradeType = BUY | SELL

datatype OrderType = LIMIT | LIMIT_MAKER | MARKET

datatype PositionAction = OPEN_ACTION | CLOSE_ACTION

datatype GridLevelStates =
  NOT_ACTIVE | OPEN_ORDER_PLACED | OPEN_ORDER_FILLED | CLOSE_ORDER_PLACED | COMPLETE

datatype pyval = PNone | PStr string | PNum rat | PDict "(string \<times> pyval) list"

type_synonym order_data = "(string \<times> pyval) list"

record TrackedOrder =
  order_id :: "string option"
  client_order_id :: pyval
  order_type :: "OrderType option"
  price :: rat
  amount :: rat
  is_done :: bool
  is_filled :: bool
  executed_amount_base :: rat
  executed_amount_quote :: rat
  cum_fees_quote :: rat
  raw_info :: order_data

record GridLevel =
  level_id :: string
  level_price :: rat
  amount_quote :: rat
  level_side :: TradeType
  level_order_type :: OrderType
  take_profit_pct :: rat
  active_open_order :: "TrackedOrder option"
  active_close_order :: "TrackedOrder option"
  state :: GridLevelStates

subsection \<open>Python primitives used by the order tracker\<close>

text \<open>\<open>str.upper()\<close> on the ASCII range: the letters a to z are mapped to A to Z.\<close>

definition upper_char :: "char \<Rightarrow> char" where
  "upper_char c =
     (case map_of (zip ''abcdefghijklmnopqrstuvwxyz'' ''ABCDEFGHIJKLMNOPQRSTUVWXYZ'') c of
        None \<Rightarrow> c
      | Some u \<Rightarrow> u)"

definition upper :: "string \<Rightarrow> string" where
  "upper s = map upper_char s"

text \<open>Python truthiness of a value: \<open>if v:\<close>.\<close>

fun truthy :: "pyval \<Rightarrow> bool" where
  "truthy PNone = False"
| "truthy (PStr s) = (s \<noteq> [])"
| "truthy (PNum r) = (r \<noteq> 0)"
| "truthy (PDict d) = (d \<noteq> [])"

text \<open>\<open>d.get(k, default)\<close> and \<open>k in d\<close>.\<close>

definition dict_get :: "order_data \<Rightarrow> string \<Rightarrow> pyval \<Rightarrow> pyval" where
  "dict_get d k dflt = (case map_of d k of None \<Rightarrow> dflt | Some v \<Rightarrow> v)"

definition has_key :: "order_data \<Rightarrow> string \<Rightarrow> bool" where
  "has_key d k = (map_of d k \<noteq> None)"

text \<open>\<open>needle in haystack\<close> on two strings: a contiguous occurrence.\<close>

fun str_contains :: "string \<Rightarrow> string \<Rightarrow> bool" where
  "str_contains needle [] = (needle = [])"
| "str_contains needle (c # cs) =
     (take (length needle) (c # cs) = needle \<or> str_contains needle cs)"

text \<open>
  \<open>Decimal(str(v))\<close> is the library's conversion and is a parameter \<open>conv\<close> of the model:
  \<open>None\<close> where the conversion raises \<open>InvalidOperation\<close>. \<open>decimal_of_pyval\<close> is the
  instance used in the evaluated examples: numbers convert to themselves, strings of
  digits with an optional decimal point convert to their value, all else raises.
\<close>

definition digit_val :: "char \<Rightarrow> nat option" where
  "digit_val c = map_of (zip ''0123456789'' [0, 1, 2, 3, 4, 5, 6, 7, 8, 9]) c"

fun digits_val :: "nat \<Rightarrow> string \<Rightarrow> nat option" where
  "digits_val acc [] = Some acc"
| "digits_val acc (c # cs) =
     (case digit_val c of None \<Rightarrow> None | Some v \<Rightarrow> digits_val (10 * acc + v) cs)"

definition decimal_of_string :: "string \<Rightarrow> rat option" where
  "decimal_of_string s =
     (let ip = takeWhile (\<lambda>c. c \<noteq> CHR ''.'') s;
          fp = drop 1 (dropWhile (\<lambda>c. c \<noteq> CHR ''.'') s)
      in if ip = [] \<and> fp = [] then None
         else case (digits_val 0 ip, digits_val 0 fp) of
                (Some i, Some f) \<Rightarrow> Some (of_nat i + of_nat f / 10 ^ length fp)
              | _ \<Rightarrow> None)"

fun decimal_of_pyval :: "pyval \<Rightarrow> rat option" where
  "decimal_of_pyval (PNum r) = Some r"
| "decimal_of_pyval (PStr s) = decimal_of_string s"
| "decimal_of_pyval _ = None"

subsection \<open>TrackedOrder.update_from_exchange_data\<close>

text \<open>
  The method mutates the order field by field inside one \<open>try\<close> block and returns
  \<open>False\<close> from the \<open>except\<close> branch. The model returns the flag together with the order
  as it is when the method returns: an exception raised half way keeps the assignments
  made before it. The stages follow the statements of the source in order.
\<close>

text \<open>Lines 137 to 146: the status value and the three other fields, by shape.\<close>

definition status_field :: "order_data \<Rightarrow> pyval" where
  "status_field d =
     (if has_key d ''X'' then dict_get d ''X'' (PStr ''UNKNOWN'')
      else dict_get d ''status'' (PStr ''unknown''))"

definition filled_qty_field :: "order_data \<Rightarrow> pyval" where
  "filled_qty_field d =
     (if has_key d ''X'' then dict_get d ''z'' (PStr ''0'')
      else dict_get d ''filled'' (PStr ''0''))"

definition filled_quote_field :: "order_data \<Rightarrow> pyval" where
  "filled_quote_field d =
     (if has_key d ''X'' then dict_get d ''Z'' (PStr ''0'')
      else dict_get d ''cost'' (PStr ''0''))"

definition client_id_field :: "order_data \<Rightarrow> pyval" where
  "client_id_field d =
     (if has_key d ''X'' then dict_get d ''c'' (PStr '''')
      else dict_get d ''clientOrderId'' (PStr ''''))"

text \<open>\<open>.upper()\<close> exists on strings only; on any other value the call raises.\<close>

fun status_upper :: "pyval \<Rightarrow> string option" where
  "status_upper (PStr s) = Some (upper s)"
| "status_upper _ = None"

text \<open>Lines 149 to 154: the two flags and the client order id.\<close>

definition set_flags :: "string \<Rightarrow> TrackedOrder \<Rightarrow> TrackedOrder" where
  "set_flags st ord =
     ord\<lparr>is_filled := (st \<in> set [''CLOSED'', ''FILLED'']),
         is_done := (st \<in> set [''CLOSED'', ''FILLED'', ''CANCELED'', ''EXPIRED''])\<rparr>"

definition set_client_id :: "pyval \<Rightarrow> TrackedOrder \<Rightarrow> TrackedOrder" where
  "set_client_id cid ord =
     (if truthy cid \<and> \<not> truthy (client_order_id ord) then ord\<lparr>client_order_id := cid\<rparr>
      else ord)"

text \<open>Lines 157 to 160: the executed amounts; \<open>None\<close> when the conversion raises.\<close>

definition set_executed_base ::
  "(pyval \<Rightarrow> rat option) \<Rightarrow> pyval \<Rightarrow> TrackedOrder \<Rightarrow> TrackedOrder option" where
  "set_executed_base conv q ord =
     (if truthy q then
        (case conv q of None \<Rightarrow> None | Some r \<Rightarrow> Some (ord\<lparr>executed_amount_base := r\<rparr>))
      else Some ord)"

definition set_executed_quote ::
  "(pyval \<Rightarrow> rat option) \<Rightarrow> pyval \<Rightarrow> TrackedOrder \<Rightarrow> TrackedOrder option" where
  "set_executed_quote conv q ord =
     (if truthy q then
        (case conv q of None \<Rightarrow> None | Some r \<Rightarrow> Some (ord\<lparr>executed_amount_quote := r\<rparr>))
      else Some ord)"

text \<open>
  Lines 163 to 166: the fee block. \<open>'cost' in fee_info\<close> is a key test on a dictionary,
  a substring test on a string (after which the subscript raises) and a \<open>TypeError\<close> on
  a number.
\<close>

definition set_fee ::
  "(pyval \<Rightarrow> rat option) \<Rightarrow> order_data \<Rightarrow> TrackedOrder \<Rightarrow> TrackedOrder option" where
  "set_fee conv d ord =
     (case map_of d ''fee'' of
        None \<Rightarrow> Some ord
      | Some fee_info \<Rightarrow>
          if \<not> truthy fee_info then Some ord
          else (case fee_info of
                  PDict f \<Rightarrow>
                    (case map_of f ''cost'' of
                       None \<Rightarrow> Some ord
                     | Some c \<Rightarrow>
                         (case conv c of
                            None \<Rightarrow> None
                          | Some r \<Rightarrow> Some (ord\<lparr>cum_fees_quote := r\<rparr>)))
                | PStr s \<Rightarrow> if str_contains ''cost'' s then None else Some ord
                | _ \<Rightarrow> None))"

definition update_from_exchange_data ::
  "(pyval \<Rightarrow> rat option) \<Rightarrow> order_data \<Rightarrow> TrackedOrder \<Rightarrow> bool \<times> TrackedOrder" where
  "update_from_exchange_data conv d ord =
     (case status_upper (status_field d) of
        None \<Rightarrow> (False, ord)
      | Some st \<Rightarrow>
          (let o1 = set_client_id (client_id_field d) (set_flags st ord) in
           case set_executed_base conv (filled_qty_field d) o1 of
             None \<Rightarrow> (False, o1)
           | Some o2 \<Rightarrow>
               (case set_executed_quote conv (filled_quote_field d) o2 of
                  None \<Rightarrow> (False, o2)
                | Some o3 \<Rightarrow>
                    (case set_fee conv d o3 of
                       None \<Rightarrow> (False, o3)
                     | Some o4 \<Rightarrow> (True, o4\<lparr>raw_info := d\<rparr>)))))"

subsection \<open>GridLevel: state derivation and resets\<close>

definition update_state :: "GridLevel \<Rightarrow> GridLevel" where
  "update_state l =
     (case active_open_order l of
        None \<Rightarrow> l\<lparr>state := NOT_ACTIVE\<rparr>
      | Some oo \<Rightarrow>
          if \<not> is_done oo then l\<lparr>state := OPEN_ORDER_PLACED\<rparr>
          else if is_filled oo then
            (case active_close_order l of
               None \<Rightarrow> l\<lparr>state := OPEN_ORDER_FILLED\<rparr>
             | Some co \<Rightarrow>
                 if \<not> is_done co then l\<lparr>state := CLOSE_ORDER_PLACED\<rparr>
                 else if is_filled co then l\<lparr>state := COMPLETE\<rparr>
                 else l\<lparr>state := OPEN_ORDER_FILLED\<rparr>)
          else l\<lparr>state := NOT_ACTIVE\<rparr>)"

definition reset_open_order :: "GridLevel \<Rightarrow> GridLevel" where
  "reset_open_order l = l\<lparr>active_open_order := None, state := NOT_ACTIVE\<rparr>"

definition reset_close_order :: "GridLevel \<Rightarrow> GridLevel" where
  "reset_close_order l = l\<lparr>active_close_order := None, state := OPEN_ORDER_FILLED\<rparr>"

definition reset_level :: "GridLevel \<Rightarrow> GridLevel" where
  "reset_level l =
     l\<lparr>active_open_order := None, active_close_order := None, state := NOT_ACTIVE\<rparr>"

record TradingRule =
  min_price_increment :: rat
  min_base_amount_increment :: rat
  min_notional_size :: rat
  min_order_size :: rat

record GridExecutorConfig =
  trading_pair :: string
  side :: TradeType
  start_price :: rat
  end_price :: rat
  total_amount_quote :: rat
  max_open_orders :: int
  min_spread_between_orders :: rat
  min_order_amount_quote :: rat
  cfg_order_type :: OrderType
  order_frequency :: int
  activation_bounds :: "rat option"
  safe_extra_spread :: rat
  cfg_take_profit_pct :: rat
  leverage :: int

section \<open>Grid executor (grid_executor.py)\<close>

datatype RunnableStatus = NOT_STARTED | RUNNING | SHUTTING_DOWN | TERMINATED

text \<open>
  The executor's mutable fields. \<open>levels_by_state\<close> holds references to the level objects
  of \<open>grid_levels\<close>: a bucket is the list of the positions of its levels in
  \<open>grid_levels\<close>, so that a level mutated after the bucketing is read in its current
  state, as the shared Python object is.
\<close>

record GridExecutor =
  config :: GridExecutorConfig
  trading_rules :: TradingRule
  grid_levels :: "GridLevel list"
  levels_by_state :: "GridLevelStates \<Rightarrow> nat list"
  filled_orders :: "TrackedOrder list"
  position_size_base :: rat
  max_open_creation_timestamp :: rat
  status :: RunnableStatus
  current_retries :: nat
  max_retries :: nat

text \<open>
  The connector's answer to \<open>fetch_order\<close> during one call, by order id: \<open>None\<close> where
  \<open>get_order_status\<close> returns \<open>None\<close> (the request raised).
\<close>

type_synonym fetcher = "string option \<Rightarrow> order_data option"

subsection \<open>update_all_order_status\<close>

text \<open>
  A slot of the ladder: the position of the level and whether it is the close slot.
  \<open>live_slots\<close> is the traversal of lines 373 to 380: the slots holding an order that is
  not done, with the order's id, in the order in which they are appended.
\<close>

type_synonym slot = "nat \<times> bool"

definition level_live_slots :: "nat \<Rightarrow> GridLevel \<Rightarrow> (string option \<times> slot) list" where
  "level_live_slots i l =
     (case active_open_order l of
        None \<Rightarrow> []
      | Some oo \<Rightarrow> if \<not> is_done oo then [(order_id oo, (i, False))] else []) @
     (case active_close_order l of
        None \<Rightarrow> []
      | Some co \<Rightarrow> if \<not> is_done co then [(order_id co, (i, True))] else [])"

definition live_slots :: "GridLevel list \<Rightarrow> (string option \<times> slot) list" where
  "live_slots ls = concat (map (\<lambda>(i, l). level_live_slots i l) (enumerate 0 ls))"

text \<open>\<open>order_map[id] = order\<close>: a later slot with the same id replaces the earlier one.\<close>

definition order_map :: "GridLevel list \<Rightarrow> string option \<Rightarrow> slot option" where
  "order_map ls = map_of (rev (live_slots ls))"

text \<open>The keys of a dict built by successive insertions: first occurrences, in order.\<close>

fun dict_keys :: "'a list \<Rightarrow> 'a list" where
  "dict_keys [] = []"
| "dict_keys (x # xs) = x # dict_keys (filter (\<lambda>y. y \<noteq> x) xs)"

text \<open>Applying an update to the order held by a slot.\<close>

definition update_slot ::
  "(pyval \<Rightarrow> rat option) \<Rightarrow> order_data \<Rightarrow> slot \<Rightarrow> GridLevel list \<Rightarrow> GridLevel list" where
  "update_slot conv d sl ls =
     (case sl of (i, is_close) \<Rightarrow>
        if i < length ls then
          (let l = ls ! i in
           if is_close then
             ls[i := l\<lparr>active_close_order :=
                        map_option (\<lambda>ord. snd (update_from_exchange_data conv d ord))
                          (active_close_order l)\<rparr>]
           else
             ls[i := l\<lparr>active_open_order :=
                        map_option (\<lambda>ord. snd (update_from_exchange_data conv d ord))
                          (active_open_order l)\<rparr>])
        else ls)"

text \<open>Lines 389 to 393: one entry of the answers.\<close>

definition apply_status ::
  "(pyval \<Rightarrow> rat option) \<Rightarrow> fetcher \<Rightarrow> (string option \<Rightarrow> slot option) \<Rightarrow>
     string option \<Rightarrow> GridLevel list \<Rightarrow> GridLevel list" where
  "apply_status conv fetch om oid ls =
     (case fetch oid of
        None \<Rightarrow> ls
      | Some d \<Rightarrow>
          if d \<noteq> [] then
            (case om oid of None \<Rightarrow> ls | Some sl \<Rightarrow> update_slot conv d sl ls)
          else ls)"

definition update_all_order_status ::
  "(pyval \<Rightarrow> rat option) \<Rightarrow> fetcher \<Rightarrow> GridExecutor \<Rightarrow> GridExecutor" where
  "update_all_order_status conv fetch ex =
     (let ls = grid_levels ex;
          order_ids = map fst (live_slots ls);
          om = order_map ls
      in if order_ids = [] then ex
         else ex\<lparr>grid_levels :=
                   fold (apply_status conv fetch om) (dict_keys order_ids) ls\<rparr>)"

subsection \<open>update_grid_levels\<close>

text \<open>
  \<open>_update_order_status\<close>: the order is polled by its id and updated when the answer is
  a non-empty dictionary.
\<close>

definition update_order_status ::
  "(pyval \<Rightarrow> rat option) \<Rightarrow> fetcher \<Rightarrow> TrackedOrder \<Rightarrow> TrackedOrder" where
  "update_order_status conv fetch ord =
     (case fetch (order_id ord) of
        None \<Rightarrow> ord
      | Some d \<Rightarrow> if d \<noteq> [] then snd (update_from_exchange_data conv d ord) else ord)"

text \<open>Lines 276 to 286: the body of the first loop, for one level.\<close>

definition refresh_level ::
  "(pyval \<Rightarrow> rat option) \<Rightarrow> fetcher \<Rightarrow> GridLevel \<Rightarrow> GridLevel" where
  "refresh_level conv fetch l =
     update_state
       (l\<lparr>active_open_order := map_option (update_order_status conv fetch) (active_open_order l),
          active_close_order := map_option (update_order_status conv fetch) (active_close_order l)\<rparr>)"

text \<open>Line 287: the buckets, as positions in \<open>grid_levels\<close>.\<close>

definition bucket :: "GridLevel list \<Rightarrow> GridLevelStates \<Rightarrow> nat list" where
  "bucket ls st = filter (\<lambda>i. state (ls ! i) = st) [0 ..< length ls]"

text \<open>Lines 290 to 311: a level of the COMPLETE bucket is recorded and reset.\<close>

definition complete_level :: "GridLevel \<Rightarrow> TrackedOrder list \<times> GridLevel" where
  "complete_level l =
     (case (active_open_order l, active_close_order l) of
        (Some oo, Some co) \<Rightarrow>
          if state l = COMPLETE \<and> is_filled oo \<and> is_filled co then ([oo, co], reset_level l)
          else ([], l)
      | _ \<Rightarrow> ([], l))"

text \<open>\<open>_handle_failed_orders\<close>, lines 321 to 342: the two tests, in sequence, for one level.\<close>

definition order_failed :: "TrackedOrder option \<Rightarrow> bool" where
  "order_failed x = (case x of None \<Rightarrow> False | Some ord \<Rightarrow> is_done ord \<and> \<not> is_filled ord)"

definition handle_failed_level :: "GridLevel \<Rightarrow> GridLevel" where
  "handle_failed_level l =
     (let l1 = (if order_failed (active_open_order l) then reset_open_order l else l)
      in if order_failed (active_close_order l1) then reset_close_order l1 else l1)"

definition handle_failed_orders :: "GridLevel list \<Rightarrow> GridLevel list" where
  "handle_failed_orders ls = map handle_failed_level ls"

definition update_grid_levels ::
  "(pyval \<Rightarrow> rat option) \<Rightarrow> fetcher \<Rightarrow> GridExecutor \<Rightarrow> GridExecutor" where
  "update_grid_levels conv fetch ex =
     (let ls1 = map (refresh_level conv fetch) (grid_levels ex);
          done_pairs = map complete_level ls1
      in ex\<lparr>levels_by_state := bucket ls1,
            filled_orders := filled_orders ex @ concat (map fst done_pairs),
            grid_levels := handle_failed_orders (map snd done_pairs)\<rparr>)"

section \<open>The venue as seen by one control tick\<close>

text \<open>
  An order candidate; the price of a market order is NaN in the source, \<open>None\<close> here.
\<close>

record OrderCandidate =
  cand_trading_pair :: string
  cand_order_type :: OrderType
  order_side :: TradeType
  cand_amount :: rat
  cand_price :: "rat option"
  position_action :: PositionAction

text \<open>
  Everything the connector answers during one tick. \<open>mid_price\<close> is \<open>None\<close> where
  \<open>get_mid_price\<close> raises; one value stands for all the readings of the tick.
  \<open>now\<close> is the clock read by \<open>get_open_orders_to_create\<close>, \<open>place_time\<close> the
  clock read after the last successful open placement (the earlier readings are
  overwritten before anything reads them). \<open>place\<close> is \<open>connector.place_order\<close>,
  \<open>cancel\<close> is \<open>connector.cancel_order\<close>, \<open>positions\<close> is \<open>None\<close> where
  \<open>get_positions\<close> raises.
\<close>

record Venue =
  fetch_bulk :: fetcher
  fetch_one :: fetcher
  positions :: "(rat \<times> rat) option"
  mid_price :: "rat option"
  now :: rat
  place_time :: rat
  place :: "OrderCandidate \<Rightarrow> order_data option"
  cancel :: "string option \<Rightarrow> bool"
  cancel_all :: bool
  conv_decimal :: "pyval \<Rightarrow> rat option"

subsection \<open>Decisions\<close>

definition count_open_placed :: "GridLevel list \<Rightarrow> nat" where
  "count_open_placed ls = length (filter (\<lambda>l. state l = OPEN_ORDER_PLACED) ls)"

text \<open>\<open>if self.config.activation_bounds:\<close> holds for a bound that is neither None nor 0.\<close>

definition bounds_set :: "GridExecutorConfig \<Rightarrow> rat option" where
  "bounds_set c =
     (case activation_bounds c of None \<Rightarrow> None | Some b \<Rightarrow> if b = 0 then None else Some b)"

text \<open>
  \<open>_filter_levels_by_activation_bounds\<close>: the positions of the NOT_ACTIVE bucket that
  pass the test; \<open>None\<close> where \<open>get_mid_price\<close> raises.
\<close>

definition filter_levels_by_activation_bounds ::
  "Venue \<Rightarrow> GridExecutor \<Rightarrow> nat list option" where
  "filter_levels_by_activation_bounds v ex =
     (let not_active_levels = levels_by_state ex NOT_ACTIVE in
      case bounds_set (config ex) of
        None \<Rightarrow> Some not_active_levels
      | Some b \<Rightarrow>
          (case mid_price v of
             None \<Rightarrow> None
           | Some mid \<Rightarrow>
               if side (config ex) = BUY then
                 Some (filter (\<lambda>i. level_price (grid_levels ex ! i) \<ge> mid * (1 - b))
                         not_active_levels)
               else
                 Some (filter (\<lambda>i. level_price (grid_levels ex ! i) \<le> mid * (1 + b))
                         not_active_levels)))"

text \<open>\<open>_sort_levels_by_proximity\<close>: Python's \<open>sorted\<close> is stable, as \<^const>\<open>sort_key\<close> is.\<close>

definition sort_levels_by_proximity ::
  "Venue \<Rightarrow> GridExecutor \<Rightarrow> nat list \<Rightarrow> nat list option" where
  "sort_levels_by_proximity v ex idxs =
     (case mid_price v of
        None \<Rightarrow> None
      | Some current_price \<Rightarrow>
          Some (sort_key (\<lambda>i. \<bar>level_price (grid_levels ex ! i) - current_price\<bar>) idxs))"

definition get_open_orders_to_create :: "Venue \<Rightarrow> GridExecutor \<Rightarrow> nat list option" where
  "get_open_orders_to_create v ex =
     (let n_open_orders = int (length (levels_by_state ex OPEN_ORDER_PLACED)) in
      if max_open_creation_timestamp ex > now v - of_int (order_frequency (config ex))
         \<or> n_open_orders \<ge> max_open_orders (config ex)
      then Some []
      else (case filter_levels_by_activation_bounds v ex of
              None \<Rightarrow> None
            | Some levels_allowed \<Rightarrow>
                (case sort_levels_by_proximity v ex levels_allowed of
                   None \<Rightarrow> None
                 | Some sorted_levels \<Rightarrow>
                     Some (take (nat (max_open_orders (config ex) - n_open_orders))
                             sorted_levels))))"

text \<open>\<open>_get_take_profit_price\<close>.\<close>

definition get_take_profit_price :: "GridExecutorConfig \<Rightarrow> GridLevel \<Rightarrow> rat" where
  "get_take_profit_price c l =
     (case active_open_order l of
        None \<Rightarrow> 0
      | Some oo \<Rightarrow>
          if side c = BUY then price oo * (1 + take_profit_pct l)
          else price oo * (1 - take_profit_pct l))"

text \<open>
  The distance tests divide by the mid price: \<open>None\<close> where the division raises (a
  zero mid price) or the price cannot be read.
\<close>

definition distance_to_mid :: "Venue \<Rightarrow> rat \<Rightarrow> rat option" where
  "distance_to_mid v p =
     (case mid_price v of
        None \<Rightarrow> None
      | Some mid \<Rightarrow> if mid = 0 then None else Some (\<bar>p - mid\<bar> / mid))"

fun close_proposals ::
  "Venue \<Rightarrow> GridExecutor \<Rightarrow> rat \<Rightarrow> nat list \<Rightarrow> nat list option" where
  "close_proposals v ex b [] = Some []"
| "close_proposals v ex b (i # rest) =
     (case distance_to_mid v (get_take_profit_price (config ex) (grid_levels ex ! i)) of
        None \<Rightarrow> None
      | Some tp_to_mid \<Rightarrow>
          (case close_proposals v ex b rest of
             None \<Rightarrow> None
           | Some r \<Rightarrow> Some (if tp_to_mid < b then i # r else r)))"

definition get_close_orders_to_create :: "Venue \<Rightarrow> GridExecutor \<Rightarrow> nat list option" where
  "get_close_orders_to_create v ex =
     (case bounds_set (config ex) of
        None \<Rightarrow> Some (levels_by_state ex OPEN_ORDER_FILLED)
      | Some b \<Rightarrow> close_proposals v ex b (levels_by_state ex OPEN_ORDER_FILLED))"

text \<open>
  \<open>get_open_order_ids_to_cancel\<close> and \<open>get_close_order_ids_to_cancel\<close>: the mid price
  is read once, before the loop over the orders of the bucket.
\<close>

fun ids_out_of_bounds ::
  "Venue \<Rightarrow> rat \<Rightarrow> TrackedOrder option list \<Rightarrow> string option list option" where
  "ids_out_of_bounds v b [] = Some []"
| "ids_out_of_bounds v b (None # rest) = ids_out_of_bounds v b rest"
| "ids_out_of_bounds v b (Some ord # rest) =
     (if price ord = 0 then ids_out_of_bounds v b rest
      else (case distance_to_mid v (price ord) of
              None \<Rightarrow> None
            | Some distance_pct \<Rightarrow>
                (case ids_out_of_bounds v b rest of
                   None \<Rightarrow> None
                 | Some r \<Rightarrow> Some (if distance_pct > b then order_id ord # r else r))))"

definition get_open_order_ids_to_cancel ::
  "Venue \<Rightarrow> GridExecutor \<Rightarrow> string option list option" where
  "get_open_order_ids_to_cancel v ex =
     (case bounds_set (config ex) of
        None \<Rightarrow> Some []
      | Some b \<Rightarrow>
          (case mid_price v of
             None \<Rightarrow> None
           | Some mid \<Rightarrow>
               ids_out_of_bounds v b
                 (map (\<lambda>i. active_open_order (grid_levels ex ! i))
                    (levels_by_state ex OPEN_ORDER_PLACED))))"

definition get_close_order_ids_to_cancel ::
  "Venue \<Rightarrow> GridExecutor \<Rightarrow> string option list option" where
  "get_close_order_ids_to_cancel v ex =
     (case bounds_set (config ex) of
        None \<Rightarrow> Some []
      | Some b \<Rightarrow>
          (case mid_price v of
             None \<Rightarrow> None
           | Some mid \<Rightarrow>
               ids_out_of_bounds v b
                 (map (\<lambda>i. active_close_order (grid_levels ex ! i))
                    (levels_by_state ex CLOSE_ORDER_PLACED))))"

subsection \<open>Actions\<close>

text \<open>
  \<open>order_result['id']\<close> as the \<open>order_id\<close> of a new TrackedOrder: a missing key
  raises \<open>KeyError\<close>, a value that is neither a string nor None fails the validation
  of the model; both are \<open>None\<close> here.
\<close>

definition result_order_id :: "order_data \<Rightarrow> string option option" where
  "result_order_id r =
     (case map_of r ''id'' of
        Some (PStr s) \<Rightarrow> Some (Some s)
      | Some PNone \<Rightarrow> Some None
      | _ \<Rightarrow> None)"

definition new_tracked_order ::
  "string option \<Rightarrow> OrderType \<Rightarrow> rat \<Rightarrow> rat \<Rightarrow> order_data \<Rightarrow> TrackedOrder" where
  "new_tracked_order oid ot p a r =
     \<lparr>order_id = oid, client_order_id = PNone, order_type = Some ot, price = p, amount = a,
      is_done = False, is_filled = False, executed_amount_base = 0,
      executed_amount_quote = 0, cum_fees_quote = 0, raw_info = r\<rparr>"

text \<open>
  \<open>adjust_and_place_open_order\<close> for the level at position \<open>i\<close>. Every exception is
  caught and logged by the method: the executor is then as it was.
\<close>

definition adjust_and_place_open_order :: "Venue \<Rightarrow> nat \<Rightarrow> GridExecutor \<Rightarrow> GridExecutor" where
  "adjust_and_place_open_order v i ex =
     (if i \<ge> length (grid_levels ex) then ex
      else
        (let l = grid_levels ex ! i in
         if level_price l = 0 then ex
         else
           (let base_amount = amount_quote l / level_price l;
                order_candidate =
                  \<lparr>cand_trading_pair = trading_pair (config ex),
                   cand_order_type = level_order_type l,
                   order_side = side (config ex),
                   cand_amount = base_amount,
                   cand_price = Some (level_price l),
                   position_action = OPEN_ACTION\<rparr>
            in case place v order_candidate of
                 None \<Rightarrow> ex
               | Some order_result \<Rightarrow>
                   if order_result = [] then ex
                   else (case result_order_id order_result of
                           None \<Rightarrow> ex
                         | Some oid \<Rightarrow>
                             ex\<lparr>grid_levels :=
                                  (grid_levels ex)
                                    [i := l\<lparr>active_open_order :=
                                              Some (new_tracked_order oid (level_order_type l)
                                                      (level_price l) base_amount order_result),
                                            state := OPEN_ORDER_PLACED\<rparr>],
                                max_open_creation_timestamp := place_time v\<rparr>))))"

text \<open>
  Lines 235 to 244 of \<open>control_task\<close>: the cap is tested again before each placement,
  and the loop is left at the first test that fails.
\<close>

fun place_open_orders :: "Venue \<Rightarrow> nat list \<Rightarrow> GridExecutor \<Rightarrow> GridExecutor" where
  "place_open_orders v [] ex = ex"
| "place_open_orders v (i # rest) ex =
     (if int (count_open_placed (grid_levels ex)) \<ge> max_open_orders (config ex) then ex
      else place_open_orders v rest (adjust_and_place_open_order v i ex))"

text \<open>
  \<open>GridExecutor.cancel_order\<close>: on a successful cancel the first level holding the id,
  as its open order or else as its close order, is reset at once.
\<close>

definition holds_open_id :: "string option \<Rightarrow> GridLevel \<Rightarrow> bool" where
  "holds_open_id oid l =
     (case active_open_order l of None \<Rightarrow> False | Some oo \<Rightarrow> order_id oo = oid)"

definition holds_close_id :: "string option \<Rightarrow> GridLevel \<Rightarrow> bool" where
  "holds_close_id oid l =
     (case active_close_order l of None \<Rightarrow> False | Some co \<Rightarrow> order_id co = oid)"

fun reset_first_match :: "string option \<Rightarrow> GridLevel list \<Rightarrow> GridLevel list" where
  "reset_first_match oid [] = []"
| "reset_first_match oid (l # ls) =
     (if holds_open_id oid l then reset_open_order l # ls
      else if holds_close_id oid l then reset_close_order l # ls
      else l # reset_first_match oid ls)"

definition cancel_order :: "Venue \<Rightarrow> string option \<Rightarrow> GridExecutor \<Rightarrow> GridExecutor" where
  "cancel_order v oid ex =
     (if cancel v oid then ex\<lparr>grid_levels := reset_first_match oid (grid_levels ex)\<rparr>
      else ex)"

text \<open>
  \<open>Decimal.__floordiv__\<close> truncates the quotient toward zero and raises on a zero
  divisor; \<open>_quantize_price\<close> and \<open>_quantize_amount\<close> of the connector use it.
\<close>

definition trunc_div :: "rat \<Rightarrow> rat \<Rightarrow> rat option" where
  "trunc_div a b =
     (if b = 0 then None
      else Some (of_int (if 0 \<le> a / b then \<lfloor>a / b\<rfloor> else \<lceil>a / b\<rceil>)))"

definition quantize :: "rat \<Rightarrow> rat \<Rightarrow> rat option" where
  "quantize increment x = map_option (\<lambda>q. q * increment) (trunc_div x increment)"

definition quantize_price :: "TradingRule \<Rightarrow> rat \<Rightarrow> rat option" where
  "quantize_price rules p = quantize (min_price_increment rules) p"

definition quantize_amount :: "TradingRule \<Rightarrow> rat \<Rightarrow> rat option" where
  "quantize_amount rules a = quantize (min_base_amount_increment rules) a"

text \<open>
  \<open>adjust_and_place_close_order\<close> for the level at position \<open>i\<close>, in three stages.
  Lines 601 to 609: an old close order is cancelled and its slot emptied.
\<close>

definition drop_old_close_order :: "Venue \<Rightarrow> nat \<Rightarrow> GridExecutor \<Rightarrow> GridExecutor" where
  "drop_old_close_order v i ex =
     (case active_close_order (grid_levels ex ! i) of
        None \<Rightarrow> ex
      | Some co \<Rightarrow>
          (let ex1 = cancel_order v (order_id co) ex in
           ex1\<lparr>grid_levels :=
                 (grid_levels ex1)[i := (grid_levels ex1 ! i)\<lparr>active_close_order := None\<rparr>]\<rparr>))"

text \<open>Lines 612 to 651: the price and the amount of the close order; \<open>None\<close> on a raise.\<close>

definition close_order_terms ::
  "Venue \<Rightarrow> GridExecutor \<Rightarrow> GridLevel \<Rightarrow> (TradeType \<times> rat \<times> rat) option" where
  "close_order_terms v ex l =
     (case (mid_price v, active_open_order l) of
        (Some current_price, Some oo) \<Rightarrow>
          (let c = config ex;
               base_close_price =
                 (if side c = BUY then price oo * (1 + take_profit_pct l)
                  else price oo * (1 - take_profit_pct l));
               close_side = (if side c = BUY then SELL else BUY);
               close_price =
                 (if side c = BUY then
                    (if base_close_price \<le> current_price
                     then current_price * (1 + safe_extra_spread c) else base_close_price)
                  else
                    (if base_close_price \<ge> current_price
                     then current_price * (1 - safe_extra_spread c) else base_close_price));
               close_amount0 = executed_amount_base oo;
               close_amount1 =
                 (if cum_fees_quote oo > 0 then close_amount0 - close_amount0 * (1 / 1000)
                  else close_amount0)
           in case (quantize_price (trading_rules ex) close_price,
                    quantize_amount (trading_rules ex) close_amount1) of
                (Some qp, Some qa) \<Rightarrow> Some (close_side, qp, qa)
              | _ \<Rightarrow> None)
      | _ \<Rightarrow> None)"

definition adjust_and_place_close_order :: "Venue \<Rightarrow> nat \<Rightarrow> GridExecutor \<Rightarrow> GridExecutor" where
  "adjust_and_place_close_order v i ex =
     (if i \<ge> length (grid_levels ex) then ex
      else
        (case active_open_order (grid_levels ex ! i) of
           None \<Rightarrow> ex
         | Some oo0 \<Rightarrow>
             if \<not> is_filled oo0 then ex
             else
               (let ex1 = drop_old_close_order v i ex;
                    l = grid_levels ex1 ! i
                in case close_order_terms v ex1 l of
                     None \<Rightarrow> ex1
                   | Some (close_side, close_price, close_amount) \<Rightarrow>
                       if close_amount < min_order_size (trading_rules ex1) then ex1
                       else
                         (let order_candidate =
                                \<lparr>cand_trading_pair = trading_pair (config ex1),
                                 cand_order_type = LIMIT,
                                 order_side = close_side,
                                 cand_amount = close_amount,
                                 cand_price = Some close_price,
                                 position_action = CLOSE_ACTION\<rparr>
                          in case place v order_candidate of
                               None \<Rightarrow> ex1
                             | Some order_result \<Rightarrow>
                                 if order_result = [] then ex1
                                 else (case result_order_id order_result of
                                         None \<Rightarrow> ex1
                                       | Some oid \<Rightarrow>
                                           ex1\<lparr>grid_levels :=
                                                 (grid_levels ex1)
                                                   [i := l\<lparr>active_close_order :=
                                                             Some (new_tracked_order oid LIMIT
                                                                     close_price close_amount
                                                                     order_result),
                                                           state := CLOSE_ORDER_PLACED\<rparr>]\<rparr>)))))"

subsection \<open>control_task\<close>

definition update_basic_metrics :: "Venue \<Rightarrow> GridExecutor \<Rightarrow> GridExecutor" where
  "update_basic_metrics v ex =
     (case positions v of
        None \<Rightarrow> ex
      | Some (long_pos, short_pos) \<Rightarrow>
          ex\<lparr>position_size_base := (if side (config ex) = BUY then long_pos else short_pos)\<rparr>)"

text \<open>\<open>cancel_open_orders\<close>, used while shutting down.\<close>

definition cancel_open_level :: "GridLevel \<Rightarrow> GridLevel" where
  "cancel_open_level l =
     (let l1 = (case active_open_order l of
                  None \<Rightarrow> l
                | Some oo \<Rightarrow> if \<not> is_filled oo then reset_open_order l else l)
      in case active_close_order l1 of
           None \<Rightarrow> l1
         | Some co \<Rightarrow> if \<not> is_filled co then reset_close_order l1 else l1)"

definition cancel_open_orders :: "Venue \<Rightarrow> GridExecutor \<Rightarrow> GridExecutor" where
  "cancel_open_orders v ex =
     (if cancel_all v then ex\<lparr>grid_levels := map cancel_open_level (grid_levels ex)\<rparr> else ex)"

text \<open>
  Lines 227 to 256, the RUNNING branch. The four lists are computed before anything is
  sent; \<open>None\<close> where one of the four raises, which leaves \<open>control_task\<close> through its
  \<open>except\<close> branch with nothing placed or cancelled.
\<close>

definition place_close_orders :: "Venue \<Rightarrow> nat list \<Rightarrow> GridExecutor \<Rightarrow> GridExecutor" where
  "place_close_orders v idxs ex = fold (adjust_and_place_close_order v) idxs ex"

definition cancel_orders :: "Venue \<Rightarrow> string option list \<Rightarrow> GridExecutor \<Rightarrow> GridExecutor" where
  "cancel_orders v ids ex = fold (cancel_order v) ids ex"

definition run_decisions :: "Venue \<Rightarrow> GridExecutor \<Rightarrow> GridExecutor option" where
  "run_decisions v ex =
     (case (get_open_orders_to_create v ex, get_close_orders_to_create v ex,
            get_open_order_ids_to_cancel v ex, get_close_order_ids_to_cancel v ex) of
        (Some open_orders_to_create, Some close_orders_to_create,
         Some open_order_ids_to_cancel, Some close_order_ids_to_cancel) \<Rightarrow>
          Some (cancel_orders v close_order_ids_to_cancel
                 (cancel_orders v open_order_ids_to_cancel
                   (place_close_orders v close_orders_to_create
                     (place_open_orders v open_orders_to_create ex))))
      | _ \<Rightarrow> None)"

text \<open>Lines 264 to 269: the \<open>except\<close> branch of \<open>control_task\<close>.\<close>

definition on_tick_error :: "GridExecutor \<Rightarrow> GridExecutor" where
  "on_tick_error ex =
     (let ex1 = ex\<lparr>current_retries := current_retries ex + 1\<rparr> in
      if current_retries ex1 \<ge> max_retries ex1 then ex1\<lparr>status := SHUTTING_DOWN\<rparr> else ex1)"

definition control_task :: "Venue \<Rightarrow> GridExecutor \<Rightarrow> GridExecutor" where
  "control_task v ex =
     (let ex1 = update_all_order_status (conv_decimal v) (fetch_bulk v) ex;
          ex2 = update_grid_levels (conv_decimal v) (fetch_one v) ex1;
          ex3 = update_basic_metrics v ex2
      in if status ex3 = RUNNING then
           (case run_decisions v ex3 of None \<Rightarrow> on_tick_error ex3 | Some ex4 \<Rightarrow> ex4)
         else if status ex3 = SHUTTING_DOWN then
           (cancel_open_orders v ex3)\<lparr>status := TERMINATED\<rparr>
         else ex3)"

section \<open>Configuration validation (config.py)\<close>

text \<open>
  \<open>validate_config\<close> reads the module's dictionaries; they are the argument here. The
  four strings are the API credentials of the two accounts; \<open>grid_take_profit_pct\<close> is
  the entry \<open>take_profit_pct\<close> of \<open>GRID_CONFIG\<close>, which the function never reads.
\<close>

record ModuleConfig =
  account_a_api_key :: string
  account_a_api_secret :: string
  account_b_api_key :: string
  account_b_api_secret :: string
  grid_start_price :: rat
  grid_end_price :: rat
  grid_total_amount_quote :: rat
  grid_max_open_orders :: int
  grid_take_profit_pct :: rat

datatype ConfigError =
  AccountACredentials | AccountBCredentials | StartNotBelowEnd | TotalNotPositive
  | MaxOpenOrdersNotPositive

definition validate_config :: "ModuleConfig \<Rightarrow> ConfigError + bool" where
  "validate_config c =
     (if account_a_api_key c = [] \<or> account_a_api_secret c = [] then Inl AccountACredentials
      else if account_b_api_key c = [] \<or> account_b_api_secret c = [] then
        Inl AccountBCredentials
      else if grid_start_price c \<ge> grid_end_price c then Inl StartNotBelowEnd
      else if grid_total_amount_quote c \<le> 0 then Inl TotalNotPositive
      else if grid_max_open_orders c \<le> 0 then Inl MaxOpenOrdersNotPositive
      else Inr True)"

section \<open>The connector's place_order (binance_connector.py)\<close>

text \<open>
  What \<open>place_order\<close> does before the request: \<open>Refused\<close> is the \<open>return None\<close> of line
  651, \<open>Raised\<close> an exception of the quantization or of \<open>get_mid_price\<close> (caught at line
  689, also a \<open>None\<close> result), \<open>Request a p\<close> the call of \<open>exchange.create_order\<close> with
  amount \<open>a\<close> and, for a limit order, price \<open>p\<close>. \<open>current_price\<close> is the answer of
  \<open>get_mid_price\<close> (\<open>None\<close> where it raises) and \<open>latest_price\<close> the cached price
  used for a NaN limit price (\<open>None\<close> where the cache holds a float, which the
  multiplication with a Decimal rejects with a \<open>TypeError\<close>).
\<close>

datatype PlaceOutcome = Refused | Raised | Request rat "rat option"

definition place_order ::
  "TradingRule \<Rightarrow> rat option \<Rightarrow> rat option \<Rightarrow> OrderCandidate \<Rightarrow> PlaceOutcome" where
  "place_order rules current_price latest_price oc =
     (case (case cand_price oc of
              None \<Rightarrow> Some None
            | Some p \<Rightarrow> map_option Some (quantize_price rules p)) of
        None \<Rightarrow> Raised
      | Some qprice \<Rightarrow>
          (case quantize_amount rules (cand_amount oc) of
             None \<Rightarrow> Raised
           | Some amount0 \<Rightarrow>
               (let amount1 =
                      (if amount0 < min_order_size rules then min_order_size rules else amount0);
                    notional =
                      (if cand_order_type oc = MARKET then
                         map_option (\<lambda>cp. amount1 * cp) current_price
                       else (case qprice of
                               Some p \<Rightarrow> Some (amount1 * p)
                             | None \<Rightarrow> map_option (\<lambda>lp. amount1 * lp) latest_price))
                in case notional of
                     None \<Rightarrow> Raised
                   | Some n \<Rightarrow>
                       if n < min_notional_size rules then Refused
                       else Request amount1
                              (if cand_order_type oc = MARKET then None else qprice))))"

section \<open>The ladder builder (GridExecutor._generate_grid_levels)\<close>

text \<open>
  The source leaves Decimal for binary floating point in four places: two
  \<open>math.ceil(float(a) / float(b))\<close>, one \<open>math.floor(float(a) / float(b))\<close>, one
  \<open>int(float(a) / float(b))\<close>, and the prices of \<open>_linear_distribution\<close>. They are the
  four functions below, each \<open>None\<close> on a zero divisor (\<open>ZeroDivisionError\<close>) and each
  computed exactly here: the rounding of the doubles is outside the model.
\<close>

definition float_ceil_div :: "rat \<Rightarrow> rat \<Rightarrow> int option" where
  "float_ceil_div a b = (if b = 0 then None else Some \<lceil>a / b\<rceil>)"

definition float_floor_div :: "rat \<Rightarrow> rat \<Rightarrow> int option" where
  "float_floor_div a b = (if b = 0 then None else Some \<lfloor>a / b\<rfloor>)"

text \<open>\<open>int(x)\<close> truncates toward zero.\<close>

definition py_int :: "rat \<Rightarrow> int" where
  "py_int x = (if 0 \<le> x then \<lfloor>x\<rfloor> else \<lceil>x\<rceil>)"

definition float_int_div :: "rat \<Rightarrow> rat \<Rightarrow> int option" where
  "float_int_div a b = (if b = 0 then None else Some (py_int (a / b)))"

text \<open>Decimal division raises on a zero divisor.\<close>

definition dec_div :: "rat \<Rightarrow> rat \<Rightarrow> rat option" where
  "dec_div a b = (if b = 0 then None else Some (a / b))"

definition linear_distribution :: "nat \<Rightarrow> rat \<Rightarrow> rat \<Rightarrow> rat list" where
  "linear_distribution n start end =
     (if n = 1 then [(start + end) / 2]
      else (let step = (end - start) / of_nat (n - 1)
            in map (\<lambda>i. start + of_nat i * step) [0 ..< n]))"

text \<open>The level ids \<open>L0\<close>, \<open>L1\<close>, ...: the decimal numeral of a natural number.\<close>

fun string_of_nat :: "nat \<Rightarrow> string" where
  "string_of_nat n =
     (if n < 10 then [''0123456789'' ! n]
      else string_of_nat (n div 10) @ [''0123456789'' ! (n mod 10)])"

datatype LadderError = InvalidMidPrice | DivisionByZero | PairWithoutSlash

text \<open>
  Lines 115 to 135: the smallest quote amount of a level, \<open>min_quote_amount\<close>, with the
  base amount it comes from.
\<close>

definition min_amounts ::
  "GridExecutorConfig \<Rightarrow> TradingRule \<Rightarrow> rat \<Rightarrow> (rat \<times> rat) option" where
  "min_amounts c rules p =
     (let min_notional = max (min_order_amount_quote c) (min_notional_size rules);
          min_base_increment = min_base_amount_increment rules;
          min_notional_with_margin = min_notional * (105 / 100)
      in case (dec_div min_notional_with_margin p,
               float_ceil_div min_notional (min_base_increment * p)) of
           (Some by_margin, Some k) \<Rightarrow>
             (let min_base_amount0 = max by_margin (min_base_increment * of_int k) in
              case float_ceil_div min_base_amount0 min_base_increment of
                None \<Rightarrow> None
              | Some k2 \<Rightarrow>
                  (let min_base_amount = of_int k2 * min_base_increment
                   in Some (min_base_amount, min_base_amount * p)))
         | _ \<Rightarrow> None)"

text \<open>
  Lines 138 to 168: the number of levels and the quote amount of each; \<open>None\<close> where a
  division raises.
\<close>

definition level_count_and_amount ::
  "GridExecutorConfig \<Rightarrow> TradingRule \<Rightarrow> rat \<Rightarrow> (int \<times> rat) option" where
  "level_count_and_amount c rules p =
     (case min_amounts c rules p of
        None \<Rightarrow> None
      | Some (min_base_amount, min_quote_amount) \<Rightarrow>
          (case (dec_div (end_price c - start_price c) (start_price c),
                 dec_div (min_price_increment rules) p,
                 dec_div (total_amount_quote c) min_quote_amount) of
             (Some grid_range, Some tick_step, Some cap) \<Rightarrow>
               (let min_step_size = max (min_spread_between_orders c) tick_step;
                    max_possible_levels = py_int cap
                in if max_possible_levels = 0 then Some (1, min_quote_amount)
                   else
                     (case dec_div grid_range min_step_size of
                        None \<Rightarrow> None
                      | Some by_step \<Rightarrow>
                          (let max_levels_by_step = py_int by_step;
                               n_levels = min max_possible_levels max_levels_by_step
                           in case dec_div (total_amount_quote c) (p * of_int n_levels) of
                                None \<Rightarrow> None
                              | Some per_level \<Rightarrow>
                                  (case float_floor_div per_level
                                          (min_base_amount_increment rules) of
                                     None \<Rightarrow> None
                                   | Some k \<Rightarrow>
                                       (let base_amount_per_level =
                                              max min_base_amount
                                                (of_int k * min_base_amount_increment rules);
                                            quote_amount_per_level = base_amount_per_level * p
                                        in case float_int_div (total_amount_quote c)
                                                  quote_amount_per_level of
                                             None \<Rightarrow> None
                                           | Some m \<Rightarrow>
                                               Some (max 1 (min n_levels m),
                                                     quote_amount_per_level))))))
           | _ \<Rightarrow> None))"

definition make_level :: "GridExecutorConfig \<Rightarrow> rat \<Rightarrow> nat \<Rightarrow> rat \<Rightarrow> GridLevel" where
  "make_level c q i level_price_i =
     \<lparr>level_id = CHR ''L'' # string_of_nat i, level_price = level_price_i, amount_quote = q,
      level_side = side c, level_order_type = cfg_order_type c,
      take_profit_pct = cfg_take_profit_pct c, active_open_order = None,
      active_close_order = None, state = NOT_ACTIVE\<rparr>"

definition generate_grid_levels ::
  "GridExecutorConfig \<Rightarrow> TradingRule \<Rightarrow> rat option \<Rightarrow> LadderError + GridLevel list" where
  "generate_grid_levels c rules mid =
     (case mid of
        None \<Rightarrow> Inl InvalidMidPrice
      | Some p \<Rightarrow>
          if p \<le> 0 then Inl InvalidMidPrice
          else
            (case level_count_and_amount c rules p of
               None \<Rightarrow> Inl DivisionByZero
             | Some (n_levels, quote_amount_per_level) \<Rightarrow>
                 (let prices =
                        (if n_levels > 1
                         then linear_distribution (nat n_levels) (start_price c) (end_price c)
                         else [(start_price c + end_price c) / 2])
                  in if CHR ''/'' \<notin> set (trading_pair c) then Inl PairWithoutSlash
                     else Inr (map (\<lambda>(i, lp). make_level c quote_amount_per_level i lp)
                                 (enumerate 0 prices)))))"

section \<open>Predicates used in the statements\<close>


section \<open>Example values\<close>

text \<open>
  The instrument and the configuration of the end-to-end scenarios: a long grid on
  0.248 to 0.280, price tick 0.00001, amount tick 1, minimum notional 5, minimum order
  size 1.
\<close>

definition rules_doge :: TradingRule where
  "rules_doge =
     \<lparr>min_price_increment = 1 / 100000, min_base_amount_increment = 1,
      min_notional_size = 5, min_order_size = 1\<rparr>"

definition config_long :: GridExecutorConfig where
  "config_long =
     \<lparr>trading_pair = ''DOGE/USDC:USDC'', side = BUY, start_price = 248 / 1000,
      end_price = 280 / 1000, total_amount_quote = 1000, max_open_orders = 5,
      min_spread_between_orders = 5 / 10000, min_order_amount_quote = 5,
      cfg_order_type = LIMIT, order_frequency = 0, activation_bounds = None,
      safe_extra_spread = 1 / 10000, cfg_take_profit_pct = 1 / 1000, leverage = 20\<rparr>"

text \<open>Three orders: one resting, one filled, one cancelled after a partial fill.\<close>

definition order_live :: TrackedOrder where
  "order_live =
     new_tracked_order (Some ''1001'') LIMIT (1 / 4) 100 [(''id'', PStr ''1001'')]"

definition order_filled :: TrackedOrder where
  "order_filled =
     order_live\<lparr>is_done := True, is_filled := True, executed_amount_base := 100,
       executed_amount_quote := 25,
       raw_info := [(''id'', PStr ''1001''), (''status'', PStr ''closed'')]\<rparr>"

definition order_cancelled :: TrackedOrder where
  "order_cancelled =
     order_live\<lparr>is_done := True, is_filled := False, executed_amount_base := 40,
       executed_amount_quote := 10,
       raw_info := [(''id'', PStr ''1001''), (''status'', PStr ''canceled'')]\<rparr>"

definition order_close_live :: TrackedOrder where
  "order_close_live =
     new_tracked_order (Some ''2001'') LIMIT (25025 / 100000) 100 [(''id'', PStr ''2001'')]"

text \<open>A level of the long grid holding the given orders in its two slots.\<close>

definition level_with :: "TrackedOrder option \<Rightarrow> TrackedOrder option \<Rightarrow> GridLevel" where
  "level_with oo co =
     (make_level config_long 20 0 (1 / 4))\<lparr>active_open_order := oo, active_close_order := co\<rparr>"

text \<open>
  An executor of the long grid on the given levels, bucketed by their states, and a venue
  that answers no status request, quotes 0.264, accepts every order under the id 3001
  and confirms every cancel.
\<close>

definition executor_on :: "GridExecutorConfig \<Rightarrow> GridLevel list \<Rightarrow> GridExecutor" where
  "executor_on c ls =
     \<lparr>config = c, trading_rules = rules_doge, grid_levels = ls, levels_by_state = bucket ls,
      filled_orders = [], position_size_base = 0, max_open_creation_timestamp = 0,
      status = RUNNING, current_retries = 0, max_retries = 10\<rparr>"

definition venue_quiet :: Venue where
  "venue_quiet =
     \<lparr>fetch_bulk = (\<lambda>oid. None), fetch_one = (\<lambda>oid. None), positions = Some (0, 0),
      mid_price = Some (264 / 1000), now = 1000, place_time = 1000,
      place = (\<lambda>oc. Some [(''id'', PStr ''3001'')]), cancel = (\<lambda>oid. True),
      cancel_all = True, conv_decimal = decimal_of_pyval\<rparr>"

text \<open>A module configuration that is in order except for a take-profit of zero.\<close>

definition module_config_tp_zero :: ModuleConfig where
  "module_config_tp_zero =
     \<lparr>account_a_api_key = ''ka'', account_a_api_secret = ''sa'', account_b_api_key = ''kb'',
      account_b_api_secret = ''sb'', grid_start_price = 248 / 1000,
      grid_end_price = 280 / 1000, grid_total_amount_quote = 1000,
      grid_max_open_orders = 5, grid_take_profit_pct = 0\<rparr>"

text \<open>Two order candidates of the long grid: half a unit, and 100.7 units, at 0.25.\<close>

definition candidate_small :: OrderCandidate where
  "candidate_small =
     \<lparr>cand_trading_pair = ''DOGE/USDC:USDC'', cand_order_type = LIMIT, order_side = BUY,
      cand_amount = 1 / 2, cand_price = Some (1 / 4), position_action = OPEN_ACTION\<rparr>"

definition candidate_large :: OrderCandidate where
  "candidate_large = candidate_small\<lparr>cand_amount := 1007 / 10\<rparr>"

text \<open>
  The long grid with a cooldown of 30 seconds on three idle levels at 0.260, 0.264 and
  0.270, and the same executor after an open placement at time 1000.
\<close>

definition executor_three :: GridExecutor where
  "executor_three =
     executor_on (config_long\<lparr>order_frequency := 30\<rparr>)
       [(level_with None None)\<lparr>level_price := 26 / 100\<rparr>,
        (level_with None None)\<lparr>level_price := 264 / 1000\<rparr>,
        (level_with None None)\<lparr>level_price := 27 / 100\<rparr>]"

definition executor_cooling :: GridExecutor where
  "executor_cooling = executor_three\<lparr>max_open_creation_timestamp := 1000\<rparr>"


section \<open>Verified properties\<close>

subsection \<open>The order tracker\<close>

lemma set_client_id_flags [simp]:
  "is_done (set_client_id c ord) = is_done ord"
  "is_filled (set_client_id c ord) = is_filled ord"
  by (simp_all add: set_client_id_def)

lemma set_executed_base_flags:
  "set_executed_base conv q ord = Some o' \<Longrightarrow>
     is_done o' = is_done ord \<and> is_filled o' = is_filled ord"
  by (auto simp: set_executed_base_def split: if_splits option.splits)

lemma set_executed_quote_flags:
  "set_executed_quote conv q ord = Some o' \<Longrightarrow>
     is_done o' = is_done ord \<and> is_filled o' = is_filled ord"
  by (auto simp: set_executed_quote_def split: if_splits option.splits)

lemma set_fee_flags:
  "set_fee conv d ord = Some o' \<Longrightarrow>
     is_done o' = is_done ord \<and> is_filled o' = is_filled ord"
  by (auto simp: set_fee_def split: if_splits option.splits pyval.splits)

text \<open>
  Whatever happens after line 150, the two flags are those computed from the status.
\<close>

lemma update_flags:
  "status_upper (status_field d) = Some st \<Longrightarrow>
     is_filled (snd (update_from_exchange_data conv d ord)) = is_filled (set_flags st ord) \<and>
     is_done (snd (update_from_exchange_data conv d ord)) = is_done (set_flags st ord)"
  by (auto simp: update_from_exchange_data_def Let_def split: option.splits
      dest!: set_executed_base_flags set_executed_quote_flags set_fee_flags)

text \<open>A status that is not a string makes the method fail before it assigns anything.\<close>

lemma update_no_status:
  "status_upper (status_field d) = None \<Longrightarrow>
     update_from_exchange_data conv d ord = (False, ord)"
  by (simp add: update_from_exchange_data_def)

lemmas update_eval =
  update_from_exchange_data_def status_field_def has_key_def dict_get_def upper_def
  upper_char_def set_flags_def set_client_id_def client_id_field_def set_executed_base_def
  filled_qty_field_def set_executed_quote_def filled_quote_field_def set_fee_def
  decimal_of_string_def digit_val_def

lemmas example_orders =
  order_live_def order_filled_def order_cancelled_def order_close_live_def
  new_tracked_order_def

text \<open>
  C2. The claim counts REJECTED among the statuses that set \<open>is_done\<close>, and line 150
  leaves it out: for the REST answer \<open>{'status': 'rejected'}\<close> applied to a resting
  order the method leaves \<open>is_done\<close> false, although the upper-cased status is in the
  claimed set. The order then never counts as failed and its level stays in
  OPEN_ORDER_PLACED.
\<close>

theorem C2_rejected_not_done:
  "\<not> (is_done (snd (update_from_exchange_data decimal_of_pyval
                      [(''status'', PStr ''rejected'')] order_live))
       \<longleftrightarrow> upper ''rejected'' \<in> {''FILLED'', ''CLOSED'', ''CANCELED'', ''EXPIRED'', ''REJECTED''})"
  by (simp add: update_eval example_orders)

text \<open>
  What the method does compute, for every update whose status field is a string, in the
  REST shape or in the event shape, whatever the order was before and whether or not the
  method fails later on: \<open>is_filled\<close> is true iff the upper-cased status is FILLED or
  CLOSED, and \<open>is_done\<close> is true iff it is FILLED, CLOSED, CANCELED or EXPIRED.
\<close>

lemma status_decides_flags:
  assumes "status_field d = PStr s"
  shows "is_filled (snd (update_from_exchange_data conv d ord))
           = (upper s \<in> {''FILLED'', ''CLOSED''})
         \<and> is_done (snd (update_from_exchange_data conv d ord))
           = (upper s \<in> {''FILLED'', ''CLOSED'', ''CANCELED'', ''EXPIRED''})"
  using assms update_flags [of d "upper s" conv ord] by (auto simp: set_flags_def)

lemma status_decides_flags_example:
  "status_field [(''X'', PStr ''Filled''), (''z'', PStr ''100'')] = PStr ''Filled''
   \<and> is_filled (snd (update_from_exchange_data decimal_of_pyval
                       [(''X'', PStr ''Filled''), (''z'', PStr ''100'')] order_live))
   \<and> is_done (snd (update_from_exchange_data decimal_of_pyval
                     [(''X'', PStr ''Filled''), (''z'', PStr ''100'')] order_live))"
proof -
  have h: "status_field [(''X'', PStr ''Filled''), (''z'', PStr ''100'')] = PStr ''Filled''"
    by (simp add: status_field_def has_key_def dict_get_def)
  show ?thesis
    using h status_decides_flags [OF h, of decimal_of_pyval order_live]
    by (simp add: upper_def upper_char_def)
qed

subsection \<open>The level state machine\<close>




lemma update_grid_levels_length [simp]:
  "length (grid_levels (update_grid_levels conv fetch ex)) = length (grid_levels ex)"
  by (simp add: update_grid_levels_def Let_def handle_failed_orders_def)




subsection \<open>No guard on finished orders\<close>

text \<open>
  C3 (as stated, refuted). The order \<open>order_filled\<close> is done and filled, with 100
  executed. The later REST answer \<open>{'status': 'open', 'filled': '40'}\<close> is not ignored:
  it clears \<open>is_done\<close> and \<open>is_filled\<close> and sets the executed base amount to 40.
\<close>

theorem C3_update_after_done_is_applied:
  "is_done order_filled
   \<and> \<not> is_done (snd (update_from_exchange_data decimal_of_pyval
                        [(''status'', PStr ''open''), (''filled'', PStr ''40'')] order_filled))
   \<and> \<not> is_filled (snd (update_from_exchange_data decimal_of_pyval
                          [(''status'', PStr ''open''), (''filled'', PStr ''40'')] order_filled))
   \<and> executed_amount_base
        (snd (update_from_exchange_data decimal_of_pyval
                [(''status'', PStr ''open''), (''filled'', PStr ''40'')] order_filled)) = 40"
  by (simp add: update_eval example_orders)

lemma update_slot_open_other:
  "sl \<noteq> (i, False) \<Longrightarrow>
     active_open_order (update_slot conv d sl ls ! i) = active_open_order (ls ! i)"
  by (cases sl) (auto simp: update_slot_def Let_def nth_list_update)

lemma update_slot_close_other:
  "sl \<noteq> (i, True) \<Longrightarrow>
     active_close_order (update_slot conv d sl ls ! i) = active_close_order (ls ! i)"
  by (cases sl) (auto simp: update_slot_def Let_def nth_list_update)

lemma fold_keeps_open:
  "(\<And>oid. om oid \<noteq> Some (i, False)) \<Longrightarrow>
     active_open_order (fold (apply_status conv fetch om) ks ls ! i)
       = active_open_order (ls ! i)"
proof (induction ks arbitrary: ls)
  case Nil
  then show ?case by simp
next
  case (Cons k ks)
  have "active_open_order (apply_status conv fetch om k ls ! i) = active_open_order (ls ! i)"
    using Cons.prems [of k]
    by (auto simp: apply_status_def update_slot_open_other split: option.splits)
  then show ?case using Cons by simp
qed

lemma fold_keeps_close:
  "(\<And>oid. om oid \<noteq> Some (i, True)) \<Longrightarrow>
     active_close_order (fold (apply_status conv fetch om) ks ls ! i)
       = active_close_order (ls ! i)"
proof (induction ks arbitrary: ls)
  case Nil
  then show ?case by simp
next
  case (Cons k ks)
  have "active_close_order (apply_status conv fetch om k ls ! i) = active_close_order (ls ! i)"
    using Cons.prems [of k]
    by (auto simp: apply_status_def update_slot_close_other split: option.splits)
  then show ?case using Cons by simp
qed

text \<open>Only slots holding an order that is not done enter \<open>order_map\<close>.\<close>

lemma live_slots_mem:
  "(oid, (i, c)) \<in> set (live_slots ls) \<Longrightarrow>
     i < length ls \<and>
     (if c then (\<exists>co. active_close_order (ls ! i) = Some co \<and> \<not> is_done co)
      else (\<exists>oo. active_open_order (ls ! i) = Some oo \<and> \<not> is_done oo))"
  by (auto simp: live_slots_def level_live_slots_def in_set_enumerate_eq
      split: option.splits if_splits) metis+

lemma order_map_live:
  "order_map ls oid = Some (i, c) \<Longrightarrow> (oid, (i, c)) \<in> set (live_slots ls)"
  unfolding order_map_def by (drule map_of_SomeD) simp

text \<open>
  C3 (amended). \<open>update_from_exchange_data\<close> has no guard on \<open>is_done\<close>; what the code
  has is the filter of the bulk refresh: \<open>update_all_order_status\<close> never updates an
  order that is already done, so that such an order, in the open or in the close slot
  of any level, comes out of the bulk refresh with every field as it was (\<open>is_filled\<close>,
  \<open>is_done\<close>, the executed amounts and the fees among them), whatever the venue
  answers.
\<close>

theorem C3_bulk_refresh_skips_done_orders:
  "(\<forall>ord. i < length (grid_levels ex) \<and> active_open_order (grid_levels ex ! i) = Some ord
          \<and> is_done ord \<longrightarrow>
      active_open_order (grid_levels (update_all_order_status conv fetch ex) ! i) = Some ord)
   \<and>
   (\<forall>ord. i < length (grid_levels ex) \<and> active_close_order (grid_levels ex ! i) = Some ord
          \<and> is_done ord \<longrightarrow>
      active_close_order (grid_levels (update_all_order_status conv fetch ex) ! i) = Some ord)"
proof (intro conjI allI impI)
  fix ord
  assume a: "i < length (grid_levels ex) \<and> active_open_order (grid_levels ex ! i) = Some ord
             \<and> is_done ord"
  have "\<And>oid. order_map (grid_levels ex) oid \<noteq> Some (i, False)"
    using a by (auto dest!: order_map_live live_slots_mem)
  then show "active_open_order (grid_levels (update_all_order_status conv fetch ex) ! i)
             = Some ord"
    using a by (simp add: update_all_order_status_def Let_def fold_keeps_open)
next
  fix ord
  assume a: "i < length (grid_levels ex) \<and> active_close_order (grid_levels ex ! i) = Some ord
             \<and> is_done ord"
  have "\<And>oid. order_map (grid_levels ex) oid \<noteq> Some (i, True)"
    using a by (auto dest!: order_map_live live_slots_mem)
  then show "active_close_order (grid_levels (update_all_order_status conv fetch ex) ! i)
             = Some ord"
    using a by (simp add: update_all_order_status_def Let_def fold_keeps_close)
qed

theorem C3_bulk_refresh_skips_done_orders_witness:
  "0 < length (grid_levels (executor_on config_long
                             [level_with (Some order_filled) (Some order_close_live)]))
   \<and> active_open_order
        (grid_levels (executor_on config_long
                        [level_with (Some order_filled) (Some order_close_live)]) ! 0)
       = Some order_filled
   \<and> is_done order_filled
   \<and> active_open_order
        (grid_levels
           (update_all_order_status decimal_of_pyval
              (\<lambda>oid. Some [(''status'', PStr ''open'')])
              (executor_on config_long
                 [level_with (Some order_filled) (Some order_close_live)])) ! 0)
       = Some order_filled"
  using C3_bulk_refresh_skips_done_orders
          [of 0 "executor_on config_long
                   [level_with (Some order_filled) (Some order_close_live)]"
              decimal_of_pyval "\<lambda>oid. Some [(''status'', PStr ''open'')]"]
  by (simp add: executor_on_def level_with_def example_orders)

subsection \<open>Cancelling an order\<close>

lemma reset_first_match_open:
  "i < length ls \<Longrightarrow>
   (\<forall>j<i. \<not> holds_open_id oid (ls ! j) \<and> \<not> holds_close_id oid (ls ! j)) \<Longrightarrow>
   holds_open_id oid (ls ! i) \<Longrightarrow>
   reset_first_match oid ls = ls[i := reset_open_order (ls ! i)]"
proof (induction ls arbitrary: i)
  case Nil
  then show ?case by simp
next
  case (Cons l ls)
  show ?case
  proof (cases i)
    case 0
    then show ?thesis using Cons.prems by simp
  next
    case (Suc k)
    have "\<not> holds_open_id oid l \<and> \<not> holds_close_id oid l"
      using Cons.prems(2) Suc by auto
    moreover have "reset_first_match oid ls = ls[k := reset_open_order (ls ! k)]"
      using Cons.prems Suc by (intro Cons.IH) auto
    ultimately show ?thesis using Suc by simp
  qed
qed

lemma reset_first_match_close:
  "i < length ls \<Longrightarrow>
   (\<forall>j<i. \<not> holds_open_id oid (ls ! j) \<and> \<not> holds_close_id oid (ls ! j)) \<Longrightarrow>
   \<not> holds_open_id oid (ls ! i) \<Longrightarrow> holds_close_id oid (ls ! i) \<Longrightarrow>
   reset_first_match oid ls = ls[i := reset_close_order (ls ! i)]"
proof (induction ls arbitrary: i)
  case Nil
  then show ?case by simp
next
  case (Cons l ls)
  show ?case
  proof (cases i)
    case 0
    then show ?thesis using Cons.prems by simp
  next
    case (Suc k)
    have "\<not> holds_open_id oid l \<and> \<not> holds_close_id oid l"
      using Cons.prems(2) Suc by auto
    moreover have "reset_first_match oid ls = ls[k := reset_close_order (ls ! k)]"
      using Cons.prems Suc by (intro Cons.IH) auto
    ultimately show ?thesis using Suc by simp
  qed
qed

text \<open>
  C7 (as stated, refuted). A level holds the resting open order 1001; the venue confirms
  the cancel; when \<open>cancel_order\<close> returns, in the same tick and before any refresh,
  the open slot of the level is empty.
\<close>

theorem C7_cancel_clears_slot_at_once:
  "active_open_order
     (grid_levels (executor_on config_long [level_with (Some order_live) None]) ! 0)
     = Some order_live
   \<and> active_open_order
       (grid_levels
          (cancel_order venue_quiet (Some ''1001'')
             (executor_on config_long [level_with (Some order_live) None])) ! 0)
     = None"
  by (simp add: executor_on_def level_with_def cancel_order_def venue_quiet_def
      holds_open_id_def reset_open_order_def example_orders)

text \<open>
  C7 (amended). A cancel that the venue refuses, or that fails, leaves every level as it
  is. A cancel that the venue confirms is applied to the ladder by the cancel path
  itself, in the tick where it is issued: the first level that holds the id is reset,
  its open slot emptied and its state set to NOT_ACTIVE when the id is the one of its
  open order, else its close slot emptied and its state set to OPEN_ORDER_FILLED; the
  other levels are unchanged.
\<close>

theorem C7_cancel_resets_first_holder:
  "(\<not> cancel v oid \<longrightarrow> cancel_order v oid ex = ex) \<and>
   (cancel v oid \<and> i < length (grid_levels ex)
      \<and> (\<forall>j<i. \<not> holds_open_id oid (grid_levels ex ! j)
                \<and> \<not> holds_close_id oid (grid_levels ex ! j))
      \<and> holds_open_id oid (grid_levels ex ! i) \<longrightarrow>
      grid_levels (cancel_order v oid ex)
        = (grid_levels ex)[i := reset_open_order (grid_levels ex ! i)]
      \<and> active_open_order (grid_levels (cancel_order v oid ex) ! i) = None
      \<and> state (grid_levels (cancel_order v oid ex) ! i) = NOT_ACTIVE) \<and>
   (cancel v oid \<and> i < length (grid_levels ex)
      \<and> (\<forall>j<i. \<not> holds_open_id oid (grid_levels ex ! j)
                \<and> \<not> holds_close_id oid (grid_levels ex ! j))
      \<and> \<not> holds_open_id oid (grid_levels ex ! i)
      \<and> holds_close_id oid (grid_levels ex ! i) \<longrightarrow>
      grid_levels (cancel_order v oid ex)
        = (grid_levels ex)[i := reset_close_order (grid_levels ex ! i)]
      \<and> active_close_order (grid_levels (cancel_order v oid ex) ! i) = None
      \<and> state (grid_levels (cancel_order v oid ex) ! i) = OPEN_ORDER_FILLED)"
  by (auto simp: cancel_order_def reset_first_match_open reset_first_match_close
      reset_open_order_def reset_close_order_def)

theorem C7_cancel_resets_first_holder_witness:
  "cancel venue_quiet (Some ''1001'')
   \<and> holds_open_id (Some ''1001'')
        (grid_levels (executor_on config_long
                        [level_with None None, level_with (Some order_live) None]) ! 1)
   \<and> grid_levels
        (cancel_order venue_quiet (Some ''1001'')
           (executor_on config_long
              [level_with None None, level_with (Some order_live) None]))
       = [level_with None None, reset_open_order (level_with (Some order_live) None)]
   \<and> \<not> cancel (venue_quiet\<lparr>cancel := (\<lambda>oid. False)\<rparr>) (Some ''1001'')
   \<and> cancel_order (venue_quiet\<lparr>cancel := (\<lambda>oid. False)\<rparr>) (Some ''1001'')
        (executor_on config_long [level_with None None, level_with (Some order_live) None])
       = executor_on config_long [level_with None None, level_with (Some order_live) None]"
  using C7_cancel_resets_first_holder
          [of venue_quiet "Some ''1001''"
              "executor_on config_long
                 [level_with None None, level_with (Some order_live) None]" 1]
        C7_cancel_resets_first_holder
          [of "venue_quiet\<lparr>cancel := (\<lambda>oid. False)\<rparr>" "Some ''1001''"
              "executor_on config_long
                 [level_with None None, level_with (Some order_live) None]" 1]
  by (simp add: venue_quiet_def executor_on_def level_with_def holds_open_id_def
      holds_close_id_def example_orders)

subsection \<open>Activation bounds\<close>

text \<open>
  C6 (as stated, refuted). A long grid with bounds of one percent and a mid price of
  0.264: the NOT_ACTIVE level at 0.5 passes the filter, although its distance to the
  mid price is far above one percent. And with bounds of zero the same level passes
  too, where the claim has no level eligible.
\<close>

theorem C6_far_level_is_eligible:
  "filter_levels_by_activation_bounds venue_quiet
     (executor_on (config_long\<lparr>activation_bounds := Some (1 / 100)\<rparr>)
        [(level_with None None)\<lparr>level_price := 1 / 2\<rparr>]) = Some [0]
   \<and> \<not> (\<bar>1 / 2 - 264 / 1000\<bar> / (264 / 1000) \<le> (1 / 100 :: rat))
   \<and> filter_levels_by_activation_bounds venue_quiet
       (executor_on (config_long\<lparr>activation_bounds := Some 0\<rparr>)
          [(level_with None None)\<lparr>level_price := 1 / 2\<rparr>]) = Some [0]"
  by (simp add: filter_levels_by_activation_bounds_def venue_quiet_def executor_on_def
      bounds_set_def config_long_def level_with_def make_level_def bucket_def)

text \<open>
  C6 (amended). With no activation bounds every NOT_ACTIVE level is eligible. With
  bounds \<open>b\<close> other than zero and a positive mid price the test is one-sided: on a
  long grid a NOT_ACTIVE level at price \<open>p\<close> is eligible iff \<open>(mid - p) / mid \<le> b\<close>,
  so every level above the mid price is; on a short grid iff \<open>(p - mid) / mid \<le> b\<close>,
  so every level below the mid price is.
\<close>

theorem C6_activation_test_one_sided:
  assumes "mid_price v = Some mid" and "0 < mid"
  shows "(activation_bounds (config ex) = None \<longrightarrow>
            filter_levels_by_activation_bounds v ex = Some (levels_by_state ex NOT_ACTIVE))
       \<and> (\<forall>b. activation_bounds (config ex) = Some b \<and> b \<noteq> 0 \<longrightarrow>
            (\<exists>allowed. filter_levels_by_activation_bounds v ex = Some allowed \<and>
               (\<forall>i. i \<in> set allowed \<longleftrightarrow>
                  i \<in> set (levels_by_state ex NOT_ACTIVE) \<and>
                  (if side (config ex) = BUY
                   then (mid - level_price (grid_levels ex ! i)) / mid \<le> b
                   else (level_price (grid_levels ex ! i) - mid) / mid \<le> b))))"
  using assms
  by (auto simp: filter_levels_by_activation_bounds_def bounds_set_def Let_def field_simps
      split: option.splits)

subsection \<open>Configuration validation\<close>

text \<open>
  C9. The claim has the validation refuse a take-profit percentage that is not
  positive; \<open>validate_config\<close> tests the credentials, the price range, the total and
  the order cap, and misses the take-profit: a configuration in order but for a
  take-profit of zero is accepted.
\<close>

theorem C9_zero_take_profit_accepted:
  "grid_take_profit_pct module_config_tp_zero \<le> 0
   \<and> validate_config module_config_tp_zero = Inr True"
  by (simp add: module_config_tp_zero_def validate_config_def)

text \<open>
  What \<open>validate_config\<close> does test: it accepts a configuration exactly when the
  credentials of both accounts are set, the start price is below the end price, the
  total amount is positive and the cap on open orders is positive, and raises
  otherwise; the take-profit percentage never changes the verdict.
\<close>

lemma validate_config_checks:
  "(validate_config c = Inr True \<longleftrightarrow>
      account_a_api_key c \<noteq> [] \<and> account_a_api_secret c \<noteq> []
      \<and> account_b_api_key c \<noteq> [] \<and> account_b_api_secret c \<noteq> []
      \<and> grid_start_price c < grid_end_price c
      \<and> 0 < grid_total_amount_quote c \<and> 0 < grid_max_open_orders c)
   \<and> (validate_config c = Inr True \<or> isl (validate_config c))
   \<and> validate_config (c\<lparr>grid_take_profit_pct := t\<rparr>) = validate_config c"
  by (auto simp: validate_config_def)

theorem C6_activation_test_one_sided_witness:
  "mid_price venue_quiet = Some (264 / 1000) \<and> (0::rat) < 264 / 1000
   \<and> filter_levels_by_activation_bounds venue_quiet
       (executor_on config_long [level_with None None]) = Some [0]
   \<and> (\<exists>allowed. filter_levels_by_activation_bounds venue_quiet
         (executor_on (config_long\<lparr>activation_bounds := Some (1 / 100)\<rparr>)
          [(level_with None None)\<lparr>level_price := 1 / 2\<rparr>,
           (level_with None None)\<lparr>level_price := 1 / 4\<rparr>]) = Some allowed
        \<and> 0 \<in> set allowed \<and> 1 \<notin> set allowed)"
proof -
  let ?ex = "executor_on (config_long\<lparr>activation_bounds := Some (1 / 100)\<rparr>)
          [(level_with None None)\<lparr>level_price := 1 / 2\<rparr>,
           (level_with None None)\<lparr>level_price := 1 / 4\<rparr>]"
  have m: "mid_price venue_quiet = Some (264 / 1000)" by (simp add: venue_quiet_def)
  have p: "(0::rat) < 264 / 1000" by simp
  have a: "filter_levels_by_activation_bounds venue_quiet
       (executor_on config_long [level_with None None]) = Some [0]"
    using C6_activation_test_one_sided [OF m p, of "executor_on config_long [level_with None None]"]
    by (simp add: executor_on_def config_long_def level_with_def make_level_def bucket_def)
  have b: "activation_bounds (config ?ex) = Some (1 / 100) \<and> (1 / 100 :: rat) \<noteq> 0"
    by (simp add: executor_on_def)
  obtain allowed where al: "filter_levels_by_activation_bounds venue_quiet ?ex = Some allowed"
    "\<And>i. i \<in> set allowed \<longleftrightarrow>
                  i \<in> set (levels_by_state ?ex NOT_ACTIVE) \<and>
                  (if side (config ?ex) = BUY
                   then (264 / 1000 - level_price (grid_levels ?ex ! i)) / (264 / 1000) \<le> 1 / 100
                   else (level_price (grid_levels ?ex ! i) - 264 / 1000) / (264 / 1000) \<le> 1 / 100)"
    using C6_activation_test_one_sided [OF m p, of ?ex] b by blast
  have "0 \<in> set allowed" unfolding al(2)
    by (simp add: executor_on_def config_long_def level_with_def make_level_def bucket_def)
  moreover have "1 \<notin> set allowed" unfolding al(2)
    by (simp add: executor_on_def config_long_def level_with_def make_level_def bucket_def)
  ultimately show ?thesis using m p a al(1) by blast
qed

subsection \<open>The connector's order placement\<close>

text \<open>Quantization rounds a quantity that is not negative down, by less than one increment.\<close>

lemma trunc_div_nonneg:
  "0 < b \<Longrightarrow> 0 \<le> a \<Longrightarrow> trunc_div a b = Some (of_int \<lfloor>a / b\<rfloor>)"
  by (simp add: trunc_div_def)

lemma quantize_down:
  assumes "0 < inc" "0 \<le> x"
  shows "\<exists>q. quantize inc x = Some q \<and> q \<le> x \<and> x < q + inc \<and> 0 \<le> q"
proof -
  let ?k = "\<lfloor>x / inc\<rfloor>"
  have q: "quantize inc x = Some (of_int ?k * inc)"
    using assms by (simp add: quantize_def trunc_div_nonneg)
  have "of_int ?k * inc \<le> (x / inc) * inc"
    by (rule mult_right_mono [OF of_int_floor_le]) (use assms in simp)
  then have le: "of_int ?k * inc \<le> x" using assms(1) by simp
  have "x / inc < of_int ?k + 1" by linarith
  then have "(x / inc) * inc < (of_int ?k + 1) * inc"
    by (rule mult_strict_right_mono) (use assms in simp)
  then have lt: "x < of_int ?k * inc + inc" using assms(1) by (simp add: algebra_simps)
  have "0 \<le> x / inc" using assms by simp
  then have "0 \<le> ?k" by simp
  then have "0 \<le> (of_int ?k :: rat) * inc" using assms(1) by simp
  with q le lt show ?thesis by blast
qed

text \<open>
  C10. With positive increments and a candidate amount that is not negative, the
  amount is quantized downward to a multiple \<open>q\<close> of the amount increment; the
  amount of any request that \<open>place_order\<close> sends is at least \<open>min_order_size\<close>: it is
  \<open>q\<close>, raised to exactly \<open>min_order_size\<close> when \<open>q\<close> is smaller, and a small amount
  is never refused as such. \<open>place_order\<close> refuses only when the amount so raised,
  times the price, is below \<open>min_notional_size\<close>; for a limit order with a price the
  outcome is exactly that test on the quantized price.
\<close>

theorem C10_small_amount_raised_not_refused:
  assumes "0 < min_base_amount_increment rules" and "0 < min_price_increment rules"
    and "0 \<le> cand_amount oc"
  shows "\<exists>q. quantize_amount rules (cand_amount oc) = Some q
      \<and> q \<le> cand_amount oc \<and> cand_amount oc < q + min_base_amount_increment rules
      \<and> (\<forall>a p. place_order rules cp lp oc = Request a p \<longrightarrow>
            min_order_size rules \<le> a
            \<and> a = (if q < min_order_size rules then min_order_size rules else q))
      \<and> (place_order rules cp lp oc = Refused \<longrightarrow>
            (\<exists>pr. (if q < min_order_size rules then min_order_size rules else q) * pr
                    < min_notional_size rules))
      \<and> (\<forall>p. cand_order_type oc \<noteq> MARKET \<and> cand_price oc = Some p \<and> 0 \<le> p \<longrightarrow>
            (\<exists>qp. quantize_price rules p = Some qp \<and> qp \<le> p \<and>
               place_order rules cp lp oc =
                 (if (if q < min_order_size rules then min_order_size rules else q) * qp
                       < min_notional_size rules
                  then Refused
                  else Request (if q < min_order_size rules then min_order_size rules else q)
                         (Some qp))))"
proof -
  obtain q where q: "quantize (min_base_amount_increment rules) (cand_amount oc) = Some q"
    "q \<le> cand_amount oc" "cand_amount oc < q + min_base_amount_increment rules"
    using quantize_down [OF assms(1) assms(3)] by blast
  have qa: "quantize_amount rules (cand_amount oc) = Some q" using q(1) by (simp add: quantize_amount_def)
  have A: "\<forall>a p. place_order rules cp lp oc = Request a p \<longrightarrow>
            min_order_size rules \<le> a
            \<and> a = (if q < min_order_size rules then min_order_size rules else q)"
    using qa by (auto simp: place_order_def Let_def split: option.splits if_splits)
  have B: "place_order rules cp lp oc = Refused \<longrightarrow>
            (\<exists>pr. (if q < min_order_size rules then min_order_size rules else q) * pr
                    < min_notional_size rules)"
    using qa by (auto simp: place_order_def Let_def split: option.splits if_splits)
  have C: "\<forall>p. cand_order_type oc \<noteq> MARKET \<and> cand_price oc = Some p \<and> 0 \<le> p \<longrightarrow>
            (\<exists>qp. quantize_price rules p = Some qp \<and> qp \<le> p \<and>
               place_order rules cp lp oc =
                 (if (if q < min_order_size rules then min_order_size rules else q) * qp
                       < min_notional_size rules
                  then Refused
                  else Request (if q < min_order_size rules then min_order_size rules else q)
                         (Some qp)))"
  proof (intro allI impI)
    fix p assume h: "cand_order_type oc \<noteq> MARKET \<and> cand_price oc = Some p \<and> 0 \<le> p"
    obtain qp where qp: "quantize (min_price_increment rules) p = Some qp" "qp \<le> p"
      using quantize_down [OF assms(2), of p] h by blast
    show "\<exists>qp. quantize_price rules p = Some qp \<and> qp \<le> p \<and>
               place_order rules cp lp oc =
                 (if (if q < min_order_size rules then min_order_size rules else q) * qp
                       < min_notional_size rules
                  then Refused
                  else Request (if q < min_order_size rules then min_order_size rules else q)
                         (Some qp))"
      using qp qa h by (intro exI [of _ qp]) (simp add: place_order_def quantize_price_def Let_def)
  qed
  show ?thesis using qa q(2,3) A B C by blast
qed


theorem C10_small_amount_raised_not_refused_witness:
  "0 < min_base_amount_increment rules_doge \<and> 0 < min_price_increment rules_doge
   \<and> 0 \<le> cand_amount candidate_small \<and> 0 \<le> cand_amount candidate_large
   \<and> place_order rules_doge None None candidate_large = Request 100 (Some (1 / 4))
   \<and> place_order rules_doge None None candidate_small = Refused
   \<and> place_order (rules_doge\<lparr>min_notional_size := 1 / 4\<rparr>) None None candidate_small
       = Request 1 (Some (1 / 4))"
proof -
  let ?r2 = "rules_doge\<lparr>min_notional_size := 1 / 4\<rparr>"
  have h: "0 < min_base_amount_increment rules_doge" "0 < min_price_increment rules_doge"
    "0 \<le> cand_amount candidate_small" "0 \<le> cand_amount candidate_large"
    by (simp_all add: rules_doge_def candidate_small_def candidate_large_def)
  have h2: "0 < min_base_amount_increment ?r2" "0 < min_price_increment ?r2"
    by (simp_all add: rules_doge_def)
  have fl: "\<lfloor>1007 / 10 :: rat\<rfloor> = 100" "\<lfloor>1 / 2 :: rat\<rfloor> = 0" "\<lfloor>25000 :: rat\<rfloor> = 25000"
    by (rule floor_unique; simp)+
  have qa: "quantize_amount rules_doge (cand_amount candidate_large) = Some 100"
    "quantize_amount rules_doge (cand_amount candidate_small) = Some 0"
    "quantize_amount ?r2 (cand_amount candidate_small) = Some 0"
    "quantize_price rules_doge (1 / 4) = Some (1 / 4)"
    "quantize_price ?r2 (1 / 4) = Some (1 / 4)"
    by (simp_all add: quantize_amount_def quantize_price_def quantize_def trunc_div_def
        rules_doge_def candidate_small_def candidate_large_def fl)
  have lim: "cand_order_type candidate_large \<noteq> MARKET \<and> cand_price candidate_large = Some (1 / 4) \<and> (0::rat) \<le> 1 / 4"
    "cand_order_type candidate_small \<noteq> MARKET \<and> cand_price candidate_small = Some (1 / 4) \<and> (0::rat) \<le> 1 / 4"
    by (simp_all add: candidate_small_def candidate_large_def)
  have a: "place_order rules_doge None None candidate_large = Request 100 (Some (1 / 4))"
  proof -
    from C10_small_amount_raised_not_refused [OF h(1) h(2) h(4), of None None]
    obtain q where q: "quantize_amount rules_doge (cand_amount candidate_large) = Some q"
      and l: "\<forall>p. cand_order_type candidate_large \<noteq> MARKET \<and> cand_price candidate_large = Some p \<and> 0 \<le> p \<longrightarrow>
            (\<exists>qp. quantize_price rules_doge p = Some qp \<and> qp \<le> p \<and>
               place_order rules_doge None None candidate_large =
                 (if (if q < min_order_size rules_doge then min_order_size rules_doge else q) * qp
                       < min_notional_size rules_doge
                  then Refused
                  else Request (if q < min_order_size rules_doge then min_order_size rules_doge else q)
                         (Some qp)))"
      by blast
    from l lim(1) obtain qp where qp: "quantize_price rules_doge (1 / 4) = Some qp"
      "place_order rules_doge None None candidate_large =
                 (if (if q < min_order_size rules_doge then min_order_size rules_doge else q) * qp
                       < min_notional_size rules_doge
                  then Refused
                  else Request (if q < min_order_size rules_doge then min_order_size rules_doge else q)
                         (Some qp))"
      by blast
    have "q = 100" "qp = 1 / 4" using q qp(1) qa by simp_all
    then show ?thesis using qp(2) by (simp add: rules_doge_def)
  qed
  have b: "place_order rules_doge None None candidate_small = Refused"
  proof -
    from C10_small_amount_raised_not_refused [OF h(1) h(2) h(3), of None None]
    obtain q where q: "quantize_amount rules_doge (cand_amount candidate_small) = Some q"
      and l: "\<forall>p. cand_order_type candidate_small \<noteq> MARKET \<and> cand_price candidate_small = Some p \<and> 0 \<le> p \<longrightarrow>
            (\<exists>qp. quantize_price rules_doge p = Some qp \<and> qp \<le> p \<and>
               place_order rules_doge None None candidate_small =
                 (if (if q < min_order_size rules_doge then min_order_size rules_doge else q) * qp
                       < min_notional_size rules_doge
                  then Refused
                  else Request (if q < min_order_size rules_doge then min_order_size rules_doge else q)
                         (Some qp)))"
      by blast
    from l lim(2) obtain qp where qp: "quantize_price rules_doge (1 / 4) = Some qp"
      "place_order rules_doge None None candidate_small =
                 (if (if q < min_order_size rules_doge then min_order_size rules_doge else q) * qp
                       < min_notional_size rules_doge
                  then Refused
                  else Request (if q < min_order_size rules_doge then min_order_size rules_doge else q)
                         (Some qp))"
      by blast
    have "q = 0" "qp = 1 / 4" using q qp(1) qa by simp_all
    then show ?thesis using qp(2) by (simp add: rules_doge_def)
  qed
  have c: "place_order ?r2 None None candidate_small = Request 1 (Some (1 / 4))"
  proof -
    from C10_small_amount_raised_not_refused [OF h2 h(3), of None None]
    obtain q where q: "quantize_amount ?r2 (cand_amount candidate_small) = Some q"
      and l: "\<forall>p. cand_order_type candidate_small \<noteq> MARKET \<and> cand_price candidate_small = Some p \<and> 0 \<le> p \<longrightarrow>
            (\<exists>qp. quantize_price ?r2 p = Some qp \<and> qp \<le> p \<and>
               place_order ?r2 None None candidate_small =
                 (if (if q < min_order_size ?r2 then min_order_size ?r2 else q) * qp
                       < min_notional_size ?r2
                  then Refused
                  else Request (if q < min_order_size ?r2 then min_order_size ?r2 else q)
                         (Some qp)))"
      by blast
    from l lim(2) obtain qp where qp: "quantize_price ?r2 (1 / 4) = Some qp"
      "place_order ?r2 None None candidate_small =
                 (if (if q < min_order_size ?r2 then min_order_size ?r2 else q) * qp
                       < min_notional_size ?r2
                  then Refused
                  else Request (if q < min_order_size ?r2 then min_order_size ?r2 else q)
                         (Some qp))"
      by blast
    have "q = 0" "qp = 1 / 4" using q qp(1) qa by simp_all
    then show ?thesis using qp(2) by (simp add: rules_doge_def)
  qed
  show ?thesis using h a b c by simp
qed

subsection \<open>The cap on open orders\<close>




lemma config_apoo [simp]: "config (adjust_and_place_open_order v i ex) = config ex"
  by (simp add: adjust_and_place_open_order_def Let_def split: option.splits)


lemma config_place_open [simp]: "config (place_open_orders v idxs ex) = config ex"
  by (induction idxs arbitrary: ex) auto


lemma config_cancel [simp]: "config (cancel_order v oid ex) = config ex"
  by (simp add: cancel_order_def)


lemma config_cancels [simp]: "config (cancel_orders v ids ex) = config ex"
  unfolding cancel_orders_def by (induction ids arbitrary: ex) auto


lemma config_drop [simp]: "config (drop_old_close_order v i ex) = config ex"
  by (simp add: drop_old_close_order_def Let_def split: option.splits)



lemma config_apco [simp]: "config (adjust_and_place_close_order v i ex) = config ex"
  by (simp add: adjust_and_place_close_order_def Let_def split: option.splits prod.splits)


lemma config_place_close [simp]: "config (place_close_orders v idxs ex) = config ex"
  unfolding place_close_orders_def by (induction idxs arbitrary: ex) auto




lemma on_tick_error_levels [simp]:
  "grid_levels (on_tick_error ex) = grid_levels ex" "config (on_tick_error ex) = config ex"
  by (simp_all add: on_tick_error_def Let_def)

lemma ubm [simp]:
  "grid_levels (update_basic_metrics v ex) = grid_levels ex" "config (update_basic_metrics v ex) = config ex"
  by (simp_all add: update_basic_metrics_def split: option.splits prod.splits)

lemma config_ugl [simp]: "config (update_grid_levels c f ex) = config ex"
  by (simp add: update_grid_levels_def Let_def)

lemma config_uaos [simp]: "config (update_all_order_status c f ex) = config ex"
  by (simp add: update_all_order_status_def Let_def)





subsection \<open>The cooldown between open placements\<close>

text \<open>
  C5 (as stated, refuted). Three idle levels, a cap of five, a cooldown of 30 seconds and
  no placement so far: the tick at time 1000 places three open orders, not one.
\<close>

theorem C5_first_tick_places_a_batch:
  "count_open_placed (grid_levels executor_three) = 0
   \<and> count_open_placed (grid_levels (control_task venue_quiet executor_three)) = 3"
  by code_simp

text \<open>
  C5 (amended). The cooldown is tested once per tick, before the list of open orders
  to create is drawn up, not once per order. A tick whose clock reading is less than
  \<open>order_frequency\<close> seconds after the most recent open placement draws up no open
  order; with \<open>order_frequency = 30\<close> this holds at every reading less than 30 seconds
  after that placement. At 30 seconds the throttle no longer holds: with capacity
  available (and no activation bounds) the tick draws up a batch of up to
  \<open>max_open_orders\<close> minus the number of levels in OPEN_ORDER_PLACED idle levels, the
  nearest to the mid price first.
\<close>

theorem C5_cooldown_per_tick:
  "(max_open_creation_timestamp ex > now v - of_int (order_frequency (config ex))
      \<longrightarrow> get_open_orders_to_create v ex = Some []) \<and>
   (\<forall>k. order_frequency (config ex) = 30 \<and> now v = max_open_creation_timestamp ex + k
        \<and> k < 30
      \<longrightarrow> get_open_orders_to_create v ex = Some []) \<and>
   (\<forall>m. order_frequency (config ex) = 30 \<and> now v = max_open_creation_timestamp ex + 30
        \<and> int (length (levels_by_state ex OPEN_ORDER_PLACED)) < max_open_orders (config ex)
        \<and> activation_bounds (config ex) = None \<and> mid_price v = Some m
      \<longrightarrow> get_open_orders_to_create v ex =
           Some (take (nat (max_open_orders (config ex)
                            - int (length (levels_by_state ex OPEN_ORDER_PLACED))))
                   (sort_key (\<lambda>i. \<bar>level_price (grid_levels ex ! i) - m\<bar>)
                      (levels_by_state ex NOT_ACTIVE))))"
  by (auto simp: get_open_orders_to_create_def Let_def filter_levels_by_activation_bounds_def
      bounds_set_def sort_levels_by_proximity_def)

theorem C5_cooldown_per_tick_witness:
  "order_frequency (config executor_cooling) = 30
   \<and> now (venue_quiet\<lparr>now := 1029\<rparr>) = max_open_creation_timestamp executor_cooling + 29
   \<and> get_open_orders_to_create (venue_quiet\<lparr>now := 1029\<rparr>) executor_cooling = Some []
   \<and> now (venue_quiet\<lparr>now := 1030\<rparr>) = max_open_creation_timestamp executor_cooling + 30
   \<and> int (length (levels_by_state executor_cooling OPEN_ORDER_PLACED))
        < max_open_orders (config executor_cooling)
   \<and> activation_bounds (config executor_cooling) = None
   \<and> mid_price (venue_quiet\<lparr>now := 1030\<rparr>) = Some (264 / 1000)
   \<and> get_open_orders_to_create (venue_quiet\<lparr>now := 1030\<rparr>) executor_cooling
       = Some [1, 0, 2]"
proof -
  have h: "order_frequency (config executor_cooling) = 30"
    "now (venue_quiet\<lparr>now := 1029\<rparr>) = max_open_creation_timestamp executor_cooling + 29"
    "now (venue_quiet\<lparr>now := 1030\<rparr>) = max_open_creation_timestamp executor_cooling + 30"
    "int (length (levels_by_state executor_cooling OPEN_ORDER_PLACED))
        < max_open_orders (config executor_cooling)"
    "activation_bounds (config executor_cooling) = None"
    "mid_price (venue_quiet\<lparr>now := 1030\<rparr>) = Some (264 / 1000)"
    by (simp_all add: executor_cooling_def executor_three_def executor_on_def config_long_def
        venue_quiet_def bucket_def level_with_def make_level_def)
  have s: "take (nat (max_open_orders (config executor_cooling)
                            - int (length (levels_by_state executor_cooling OPEN_ORDER_PLACED))))
             (sort_key (\<lambda>i. \<bar>level_price (grid_levels executor_cooling ! i) - 264 / 1000\<bar>)
                (levels_by_state executor_cooling NOT_ACTIVE)) = [1, 0, 2]"
    by code_simp
  have a: "get_open_orders_to_create (venue_quiet\<lparr>now := 1029\<rparr>) executor_cooling = Some []"
    using C5_cooldown_per_tick [where ex = executor_cooling and v = "venue_quiet\<lparr>now := 1029\<rparr>"] h(1,2)
    by simp
  have t: "\<forall>m. order_frequency (config executor_cooling) = 30
        \<and> now (venue_quiet\<lparr>now := 1030\<rparr>) = max_open_creation_timestamp executor_cooling + 30
        \<and> int (length (levels_by_state executor_cooling OPEN_ORDER_PLACED))
            < max_open_orders (config executor_cooling)
        \<and> activation_bounds (config executor_cooling) = None
        \<and> mid_price (venue_quiet\<lparr>now := 1030\<rparr>) = Some m
      \<longrightarrow> get_open_orders_to_create (venue_quiet\<lparr>now := 1030\<rparr>) executor_cooling =
           Some (take (nat (max_open_orders (config executor_cooling)
                            - int (length (levels_by_state executor_cooling OPEN_ORDER_PLACED))))
                   (sort_key (\<lambda>i. \<bar>level_price (grid_levels executor_cooling ! i) - m\<bar>)
                      (levels_by_state executor_cooling NOT_ACTIVE)))"
    using C5_cooldown_per_tick
            [where ex = executor_cooling and v = "venue_quiet\<lparr>now := 1030\<rparr>"]
    by blast
  have "get_open_orders_to_create (venue_quiet\<lparr>now := 1030\<rparr>) executor_cooling =
           Some (take (nat (max_open_orders (config executor_cooling)
                            - int (length (levels_by_state executor_cooling OPEN_ORDER_PLACED))))
                   (sort_key (\<lambda>i. \<bar>level_price (grid_levels executor_cooling ! i) - 264 / 1000\<bar>)
                      (levels_by_state executor_cooling NOT_ACTIVE)))"
    using t [rule_format, of "264 / 1000"] h by blast
  then have b: "get_open_orders_to_create (venue_quiet\<lparr>now := 1030\<rparr>) executor_cooling
       = Some [1, 0, 2]"
    unfolding s .
  show ?thesis using h a b by simp
qed


end
